theory Spec2Isabelle
  imports Complex_Main "HOL-Library.Sublist"
begin

section \<open>Data model of the research state\<close>

text \<open>
  The embedding follows \<^verbatim>\<open>src/models/execution_state.py\<close> and
  \<^verbatim>\<open>src/models/base_models.py\<close>. The class \<^verbatim>\<open>EnhancedExecutionState\<close> is a record
  that every operation takes and returns updated. Python \<^verbatim>\<open>str\<close> is \<open>string\<close>;
  non-ASCII literals of the source are written as their UTF-8 bytes. \<^verbatim>\<open>float\<close> values
  (scores, confidence) are modelled as \<open>real\<close>, so NaN and the infinities are outside the
  model. The time stamp \<^verbatim>\<open>datetime.datetime.now().isoformat()\<close> that an operation reads
  is passed to it as an argument. The fields \<^verbatim>\<open>search_iterations\<close> and
  \<^verbatim>\<open>hypotheses\<close> are left out: none of the operations below reads or writes them.
\<close>

type_synonym timestamp = string

text \<open>One dictionary of \<^verbatim>\<open>decomposed_goals\<close>; \<open>goal_ident\<close> is its key \<^verbatim>\<open>"id"\<close>.\<close>

record goal =
  goal_ident :: string
  goal_description :: string
  goal_status :: string
  created_at :: timestamp
  completed_at :: "timestamp option"
  related_searches :: "string list"
  related_knowledge :: "string list"

text \<open>\<^verbatim>\<open>KnowledgeItem\<close>; \<open>k_value\<close> is the opaque field \<^verbatim>\<open>value\<close>. The knowledge
  base holds references to objects, and an object may be held at several positions.
  \<open>object_id\<close> is no field of the source: it is the identity of the object, what
  \<^verbatim>\<open>is\<close> compares. Two entries with the same identity are one object and have the
  same fields.\<close>

record knowledge_item =
  object_id :: nat
  key :: string
  k_value :: string
  source :: string
  publish_date :: "string option"
  added_at :: timestamp
  confidence :: real
  goal_id :: "string option"
  verified :: bool

text \<open>One dictionary of \<^verbatim>\<open>contradictions\<close>.\<close>

record contradiction =
  contra_ident :: string
  contra_description :: string
  conflicting_knowledge_ids :: "string list"
  resolution_attempt_description :: "string option"
  contra_status :: string

text \<open>One dictionary of \<^verbatim>\<open>history\<close>.\<close>

record generation_record =
  h_timestamp :: timestamp
  h_content :: "string option"
  h_score :: "real option"
  h_criticism :: "string option"

record state =
  task_id :: string
  task_description :: string
  decomposed_goals :: "goal list"
  knowledge_base :: "knowledge_item list"
  contradictions :: "contradiction list"
  current_generation :: "string option"
  current_score :: "real option"
  current_criticism :: "string option"
  history :: "generation_record list"

text \<open>The state pydantic builds from the two required fields: every list empty, the
  current triple \<^verbatim>\<open>None\<close>.\<close>

definition new_state :: "string \<Rightarrow> string \<Rightarrow> state" where
  "new_state tid descr =
     \<lparr>task_id = tid, task_description = descr, decomposed_goals = [],
      knowledge_base = [], contradictions = [], current_generation = None,
      current_score = None, current_criticism = None, history = []\<rparr>"

text \<open>Python's truth value of an \<^verbatim>\<open>Optional[str]\<close>: \<^verbatim>\<open>None\<close> and \<^verbatim>\<open>""\<close> are false.\<close>

fun truthy :: "string option \<Rightarrow> bool" where
  "truthy None = False"
| "truthy (Some s) = (s \<noteq> [])"

section \<open>Generation ledger\<close>

text \<open>
  \<^verbatim>\<open>add_generation\<close>: the entry appended to \<^verbatim>\<open>history\<close> holds the current triple as
  it was before the call; then the arguments become the current triple.
\<close>

definition add_generation :: "timestamp \<Rightarrow> string \<Rightarrow> real \<Rightarrow> string \<Rightarrow> state \<Rightarrow> state" where
  "add_generation now content score criticism s =
     s\<lparr>history := history s @
          [\<lparr>h_timestamp = now, h_content = current_generation s,
            h_score = current_score s, h_criticism = current_criticism s\<rparr>],
       current_generation := Some content,
       current_score := Some score,
       current_criticism := Some criticism\<rparr>"

text \<open>The content, score and criticism of a history entry, and the current triple.\<close>

definition record_triple :: "generation_record \<Rightarrow> string option \<times> real option \<times> string option" where
  "record_triple h = (h_content h, h_score h, h_criticism h)"

definition current_triple :: "state \<Rightarrow> string option \<times> real option \<times> string option" where
  "current_triple s = (current_generation s, current_score s, current_criticism s)"

text \<open>A run of commits: each element is the clock reading and the three arguments of one
  \<^verbatim>\<open>add_generation\<close> call.\<close>

fun add_generations :: "(timestamp \<times> string \<times> real \<times> string) list \<Rightarrow> state \<Rightarrow> state" where
  "add_generations [] s = s"
| "add_generations ((now, c, sc, cr) # gs) s = add_generations gs (add_generation now c sc cr s)"

section \<open>Identifiers\<close>

text \<open>The decimal text of a natural number, as an f-string renders \<^verbatim>\<open>len(...) + 1\<close>.\<close>

definition digit_char :: "nat \<Rightarrow> char" where
  "digit_char d = ''0123456789'' ! d"

fun str_of_nat :: "nat \<Rightarrow> string" where
  "str_of_nat n =
     (if n < 10 then [digit_char n] else str_of_nat (n div 10) @ [digit_char (n mod 10)])"

declare str_of_nat.simps [simp del]

section \<open>Goal tracker\<close>

text \<open>\<^verbatim>\<open>add_goal\<close>: the identifier is \<^verbatim>\<open>f"goal_{len(self.decomposed_goals) + 1}"\<close>; the
  status is a parameter of the source (default \<^verbatim>\<open>"pending"\<close>).\<close>

definition add_goal :: "timestamp \<Rightarrow> string \<Rightarrow> string \<Rightarrow> state \<Rightarrow> string \<times> state" where
  "add_goal now descr status s =
     (let gid = ''goal_'' @ str_of_nat (length (decomposed_goals s) + 1)
      in (gid,
          s\<lparr>decomposed_goals := decomposed_goals s @
               [\<lparr>goal_ident = gid, goal_description = descr, goal_status = status,
                 created_at = now, completed_at = None,
                 related_searches = [], related_knowledge = []\<rparr>]\<rparr>))"

text \<open>The loop of \<^verbatim>\<open>update_goal_status\<close>: the first goal whose id matches gets the
  status, and the time stamp when the status is \<^verbatim>\<open>"completed"\<close>; then \<^verbatim>\<open>break\<close>.\<close>

fun set_goal_status :: "timestamp \<Rightarrow> string \<Rightarrow> string \<Rightarrow> goal list \<Rightarrow> goal list" where
  "set_goal_status now gid status [] = []"
| "set_goal_status now gid status (g # gs) =
     (if goal_ident g = gid
      then (let g' = g\<lparr>goal_status := status\<rparr>
            in (if status = ''completed'' then g'\<lparr>completed_at := Some now\<rparr> else g')) # gs
      else g # set_goal_status now gid status gs)"

definition update_goal_status :: "timestamp \<Rightarrow> string \<Rightarrow> string \<Rightarrow> state \<Rightarrow> state" where
  "update_goal_status now gid status s =
     s\<lparr>decomposed_goals := set_goal_status now gid status (decomposed_goals s)\<rparr>"

text \<open>\<^verbatim>\<open>get_goal_progress\<close>: the dictionary is a map from keys to counts. It starts with
  the key \<^verbatim>\<open>"total"\<close> and the three seeded statuses, and each goal adds one under its
  status, \<^verbatim>\<open>stats.get(status, 0) + 1\<close>.\<close>

definition initial_stats :: "goal list \<Rightarrow> (string \<rightharpoonup> nat)" where
  "initial_stats gs =
     [''total'' \<mapsto> length gs, ''completed'' \<mapsto> 0, ''in_progress'' \<mapsto> 0, ''pending'' \<mapsto> 0]"

definition count_status :: "(string \<rightharpoonup> nat) \<Rightarrow> goal \<Rightarrow> (string \<rightharpoonup> nat)" where
  "count_status stats g =
     stats(goal_status g \<mapsto> (case stats (goal_status g) of None \<Rightarrow> 0 | Some c \<Rightarrow> c) + 1)"

definition get_goal_progress :: "state \<Rightarrow> (string \<rightharpoonup> nat)" where
  "get_goal_progress s = foldl count_status (initial_stats (decomposed_goals s)) (decomposed_goals s)"

text \<open>A run of goal-tracker calls from the outside.\<close>

datatype goal_op =
  Add_goal timestamp string string
| Update_goal_status timestamp string string

fun goal_step :: "state \<Rightarrow> goal_op \<Rightarrow> state" where
  "goal_step s (Add_goal now descr status) = snd (add_goal now descr status s)"
| "goal_step s (Update_goal_status now gid status) = update_goal_status now gid status s"

definition run_goal_ops :: "goal_op list \<Rightarrow> state \<Rightarrow> state" where
  "run_goal_ops ops s = foldl goal_step s ops"

section \<open>Knowledge store\<close>

datatype py_exc =
  OverflowError
| ParserError
| ValueError string
| KeyError string
| TypeError
| JSONDecodeError string
| CapabilityError string

text \<open>The loop of \<^verbatim>\<open>add_knowledge\<close> over the goals: the first goal with the item's
  \<^verbatim>\<open>goal_id\<close> gets the item's key appended to \<^verbatim>\<open>related_knowledge\<close>. It runs
  under \<^verbatim>\<open>if knowledge_item.goal_id:\<close>, false for \<^verbatim>\<open>None\<close> and for the empty text.\<close>

fun link_knowledge :: "string \<Rightarrow> string \<Rightarrow> goal list \<Rightarrow> goal list" where
  "link_knowledge gid k [] = []"
| "link_knowledge gid k (g # gs) =
     (if goal_ident g = gid then g\<lparr>related_knowledge := related_knowledge g @ [k]\<rparr> # gs
      else g # link_knowledge gid k gs)"

definition add_knowledge :: "knowledge_item \<Rightarrow> state \<Rightarrow> string \<times> state" where
  "add_knowledge item s =
     (let s' = s\<lparr>knowledge_base := knowledge_base s @ [item]\<rparr>
      in (key item,
          (case goal_id item of
             None \<Rightarrow> s'
           | Some gid \<Rightarrow>
               (if gid = [] then s'
                else s'\<lparr>decomposed_goals := link_knowledge gid (key item) (decomposed_goals s')\<rparr>))))"

fun get_knowledge_item :: "string \<Rightarrow> knowledge_item list \<Rightarrow> knowledge_item option" where
  "get_knowledge_item k [] = None"
| "get_knowledge_item k (item # items) =
     (if key item = k then Some item else get_knowledge_item k items)"

text \<open>The keyword arguments of \<^verbatim>\<open>update_knowledge_item\<close>, in call order; \<open>Set_unknown\<close>
  carries a name that is not a field of \<^verbatim>\<open>KnowledgeItem\<close>. \<open>kw_name\<close> is the name
  a keyword is passed under.\<close>

datatype field_update =
  Set_key string
| Set_value string
| Set_source string
| Set_publish_date "string option"
| Set_added_at timestamp
| Set_confidence real
| Set_goal_id "string option"
| Set_verified bool
| Set_unknown string

fun kw_name :: "field_update \<Rightarrow> string" where
  "kw_name (Set_key v) = ''key''"
| "kw_name (Set_value v) = ''value''"
| "kw_name (Set_source v) = ''source''"
| "kw_name (Set_publish_date v) = ''publish_date''"
| "kw_name (Set_added_at v) = ''added_at''"
| "kw_name (Set_confidence v) = ''confidence''"
| "kw_name (Set_goal_id v) = ''goal_id''"
| "kw_name (Set_verified v) = ''verified''"
| "kw_name (Set_unknown name) = name"

text \<open>Python binds the arguments of a call before the body runs: a keyword named like
  one of the method's own parameters, \<^verbatim>\<open>self\<close> or \<^verbatim>\<open>key\<close>, gets a second value for
  that parameter and the call raises TypeError.\<close>

definition binds_parameter :: "field_update \<Rightarrow> bool" where
  "binds_parameter u = (kw_name u = ''self'' \<or> kw_name u = ''key'')"

text \<open>\<^verbatim>\<open>setattr(item, k, v)\<close> on the pydantic model: its \<^verbatim>\<open>__setattr__\<close> raises
  ValueError for a name that is not a field; the identity of the object never changes.
  In the loop over the keyword arguments the assignments made before an exception stay.\<close>

fun setattr :: "knowledge_item \<Rightarrow> field_update \<Rightarrow> py_exc + knowledge_item" where
  "setattr item (Set_key v) = Inr (item\<lparr>key := v\<rparr>)"
| "setattr item (Set_value v) = Inr (item\<lparr>k_value := v\<rparr>)"
| "setattr item (Set_source v) = Inr (item\<lparr>source := v\<rparr>)"
| "setattr item (Set_publish_date v) = Inr (item\<lparr>publish_date := v\<rparr>)"
| "setattr item (Set_added_at v) = Inr (item\<lparr>added_at := v\<rparr>)"
| "setattr item (Set_confidence v) = Inr (item\<lparr>confidence := v\<rparr>)"
| "setattr item (Set_goal_id v) = Inr (item\<lparr>goal_id := v\<rparr>)"
| "setattr item (Set_verified v) = Inr (item\<lparr>verified := v\<rparr>)"
| "setattr item (Set_unknown name) = Inl (ValueError name)"

fun setattrs :: "knowledge_item \<Rightarrow> field_update list \<Rightarrow> knowledge_item \<times> py_exc option" where
  "setattrs item [] = (item, None)"
| "setattrs item (u # us) =
     (case setattr item u of Inl e \<Rightarrow> (item, Some e) | Inr item' \<Rightarrow> setattrs item' us)"

text \<open>The loop of \<^verbatim>\<open>update_knowledge_item\<close>: at the first item whose key matches, the
  object as it was, the object after the assignments, and the exception if one was raised;
  \<open>None\<close> when the loop ends without a match.\<close>

fun update_loop :: "string \<Rightarrow> field_update list \<Rightarrow> knowledge_item list \<Rightarrow>
    (knowledge_item \<times> knowledge_item \<times> py_exc option) option" where
  "update_loop k us [] = None"
| "update_loop k us (item # items) =
     (if key item = k
      then (case setattrs item us of (item', e) \<Rightarrow> Some (item, item', e))
      else update_loop k us items)"

text \<open>The assignments mutate the object in place, so every position of the list that
  holds this object shows its new fields.\<close>

definition write_object :: "knowledge_item \<Rightarrow> knowledge_item \<Rightarrow> knowledge_item list \<Rightarrow> knowledge_item list" where
  "write_object old new items =
     map (\<lambda>x. if object_id x = object_id old then new else x) items"

text \<open>\<^verbatim>\<open>update_knowledge_item\<close>: the value returned or the exception raised, and the
  state after the call.\<close>

definition update_knowledge_item :: "string \<Rightarrow> field_update list \<Rightarrow> state \<Rightarrow> (py_exc + bool) \<times> state" where
  "update_knowledge_item k us s =
     (if list_ex binds_parameter us then (Inl TypeError, s)
      else (case update_loop k us (knowledge_base s) of
              None \<Rightarrow> (Inr False, s)
            | Some (old, new, e) \<Rightarrow>
                (case e of None \<Rightarrow> Inr True | Some x \<Rightarrow> Inl x,
                 s\<lparr>knowledge_base := write_object old new (knowledge_base s)\<rparr>)))"

section \<open>Contradiction ledger\<close>

definition add_contradiction :: "string list \<Rightarrow> string \<Rightarrow> state \<Rightarrow> string \<times> state" where
  "add_contradiction ids descr s =
     (let cid = ''contra_'' @ str_of_nat (length (contradictions s) + 1)
      in (cid,
          s\<lparr>contradictions := contradictions s @
               [\<lparr>contra_ident = cid, contra_description = descr,
                 conflicting_knowledge_ids = ids,
                 resolution_attempt_description = None,
                 contra_status = ''unresolved''\<rparr>]\<rparr>))"

text \<open>The loop of \<^verbatim>\<open>update_contradiction_status\<close>: the first entry whose id matches gets
  the status, and the resolution text under the guard \<^verbatim>\<open>if resolution_description:\<close>;
  the call returns whether an entry matched.\<close>

fun set_contradiction_status :: "string \<Rightarrow> string \<Rightarrow> string option \<Rightarrow> contradiction list \<Rightarrow>
    contradiction list \<times> bool" where
  "set_contradiction_status cid status res [] = ([], False)"
| "set_contradiction_status cid status res (c # cs) =
     (if contra_ident c = cid
      then ((let c' = c\<lparr>contra_status := status\<rparr>
             in (if truthy res then c'\<lparr>resolution_attempt_description := res\<rparr> else c')) # cs,
            True)
      else (case set_contradiction_status cid status res cs of (cs', r) \<Rightarrow> (c # cs', r)))"

definition update_contradiction_status :: "string \<Rightarrow> string \<Rightarrow> string option \<Rightarrow> state \<Rightarrow> bool \<times> state" where
  "update_contradiction_status cid status res s =
     (case set_contradiction_status cid status res (contradictions s) of
        (cs', r) \<Rightarrow> (r, s\<lparr>contradictions := cs'\<rparr>))"

text \<open>A run of ledger calls from the outside.\<close>

datatype contra_op =
  Add_contradiction "string list" string
| Update_contradiction_status string string "string option"

fun contra_step :: "state \<Rightarrow> contra_op \<Rightarrow> state" where
  "contra_step s (Add_contradiction ids descr) = snd (add_contradiction ids descr s)"
| "contra_step s (Update_contradiction_status cid status res) =
     snd (update_contradiction_status cid status res s)"

definition run_contra_ops :: "contra_op list \<Rightarrow> state \<Rightarrow> state" where
  "run_contra_ops ops s = foldl contra_step s ops"

section \<open>Retrieval by recency\<close>

text \<open>
  A naive \<^verbatim>\<open>datetime\<close> is the number of microseconds since \<^verbatim>\<open>datetime.min\<close>
  (0001-01-01T00:00:00); \<^verbatim>\<open>datetime.max\<close> is the last microsecond of the year 9999,
  day 3652059 of the proleptic calendar. Arithmetic that leaves this range, or a
  \<^verbatim>\<open>timedelta\<close> of more than 999999999 days, raises OverflowError.

  \<^verbatim>\<open>dateutil.parser.parse\<close> is a parameter \<open>parse_date\<close>. Its result \<open>None\<close> stands
  for every outcome that gives no naive datetime: the parser raises, or it returns a
  timezone-aware value, whose comparison with the naive cutoff raises TypeError. Both end
  in the same \<^verbatim>\<open>except\<close> branch at each call site.
\<close>

type_synonym datetime = int

definition microseconds_per_day :: int where
  "microseconds_per_day = 86400000000"

definition valid_datetime :: "datetime \<Rightarrow> bool" where
  "valid_datetime t = (0 \<le> t \<and> t < 3652059 * microseconds_per_day)"

text \<open>\<^verbatim>\<open>datetime.datetime.now() - relativedelta(days=days)\<close>.\<close>

definition cutoff_date :: "datetime \<Rightarrow> int \<Rightarrow> py_exc + datetime" where
  "cutoff_date now days =
     (if \<bar>days\<bar> \<le> 999999999 \<and> valid_datetime (now - days * microseconds_per_day)
      then Inr (now - days * microseconds_per_day) else Inl OverflowError)"

text \<open>The body of the \<^verbatim>\<open>try\<close> in the loop: whether the item is appended.\<close>

definition recent_enough :: "(string \<Rightarrow> datetime option) \<Rightarrow> datetime \<Rightarrow> knowledge_item \<Rightarrow> bool" where
  "recent_enough parse_date cutoff item =
     (case publish_date item of
        None \<Rightarrow> False
      | Some p \<Rightarrow>
          (if p = [] then False
           else (case parse_date p of None \<Rightarrow> False | Some d \<Rightarrow> cutoff \<le> d)))"

text \<open>The sort key \<^verbatim>\<open>parse_date(x.publish_date) if x.publish_date else datetime.min\<close>;
  it is evaluated outside any \<^verbatim>\<open>try\<close>.\<close>

definition recency_key :: "(string \<Rightarrow> datetime option) \<Rightarrow> knowledge_item \<Rightarrow> py_exc + datetime" where
  "recency_key parse_date item =
     (case publish_date item of
        None \<Rightarrow> Inr 0
      | Some p \<Rightarrow>
          (if p = [] then Inr 0
           else (case parse_date p of None \<Rightarrow> Inl ParserError | Some d \<Rightarrow> Inr d)))"

definition key_value :: "py_exc + datetime \<Rightarrow> datetime" where
  "key_value r = (case r of Inl e \<Rightarrow> 0 | Inr d \<Rightarrow> d)"

text \<open>\<^verbatim>\<open>sorted(..., reverse=True)\<close> is stable: items with equal keys keep their order.
  That is the stable ascending sort on the negated key.\<close>

definition sorted_newest_first :: "(string \<Rightarrow> datetime option) \<Rightarrow> knowledge_item list \<Rightarrow>
    py_exc + knowledge_item list" where
  "sorted_newest_first parse_date items =
     (if list_ex (\<lambda>item. isl (recency_key parse_date item)) items then Inl ParserError
      else Inr (sort_key (\<lambda>item. - key_value (recency_key parse_date item)) items))"

definition get_knowledge_by_recency :: "(string \<Rightarrow> datetime option) \<Rightarrow> datetime \<Rightarrow> int \<Rightarrow> state \<Rightarrow>
    py_exc + knowledge_item list" where
  "get_knowledge_by_recency parse_date now days s =
     (case cutoff_date now days of
        Inl e \<Rightarrow> Inl e
      | Inr cutoff \<Rightarrow>
          sorted_newest_first parse_date
            (filter (recent_enough parse_date cutoff) (knowledge_base s)))"

section \<open>Freshness report\<close>

text \<open>
  \<^verbatim>\<open>KnowledgeFreshnessAnalysisTool._run\<close> from the call of
  \<^verbatim>\<open>get_knowledge_by_recency(days)\<close> on; the conversion of the period text to a day
  count before it is not modelled. \<^verbatim>\<open>relativedelta(now, pub_date)\<close> of dateutil is the
  parameter \<open>age_of\<close>. The five keys of \<^verbatim>\<open>age_buckets\<close> are the constructors of
  \<open>age_bucket\<close>, the last one the key for one year and more. The report is kept as its
  parts: the number of items found, the bucket counts and the items of the listing.
\<close>

datatype age_bucket =
  Within_1_month
| Months_1_to_3
| Months_3_to_6
| Months_6_to_12
| Over_1_year

record relativedelta =
  rd_years :: int
  rd_months :: int
  rd_days :: int

definition bucket_of_age :: "relativedelta \<Rightarrow> age_bucket" where
  "bucket_of_age age =
     (if rd_years age = 0 \<and> rd_months age = 0 \<and> rd_days age < 30 then Within_1_month
      else if rd_years age = 0 \<and> rd_months age < 3 then Months_1_to_3
      else if rd_years age = 0 \<and> rd_months age < 6 then Months_3_to_6
      else if rd_years age = 0 then Months_6_to_12
      else Over_1_year)"

text \<open>The bucket one item of the loop is counted in: the \<^verbatim>\<open>else\<close> branch for a
  missing date and the \<^verbatim>\<open>except\<close> branch both count in the oldest bucket.\<close>

definition item_bucket :: "(string \<Rightarrow> datetime option) \<Rightarrow> (datetime \<Rightarrow> datetime \<Rightarrow> relativedelta) \<Rightarrow>
    datetime \<Rightarrow> knowledge_item \<Rightarrow> age_bucket" where
  "item_bucket parse_date age_of now item =
     (case publish_date item of
        None \<Rightarrow> Over_1_year
      | Some p \<Rightarrow>
          (if p = [] then Over_1_year
           else (case parse_date p of
                   None \<Rightarrow> Over_1_year
                 | Some d \<Rightarrow> bucket_of_age (age_of now d))))"

definition count_bucket :: "(age_bucket \<Rightarrow> nat) \<Rightarrow> age_bucket \<Rightarrow> (age_bucket \<Rightarrow> nat)" where
  "count_bucket buckets b = buckets(b := buckets b + 1)"

definition age_buckets :: "(string \<Rightarrow> datetime option) \<Rightarrow> (datetime \<Rightarrow> datetime \<Rightarrow> relativedelta) \<Rightarrow>
    datetime \<Rightarrow> knowledge_item list \<Rightarrow> (age_bucket \<Rightarrow> nat)" where
  "age_buckets parse_date age_of now items =
     foldl count_bucket (\<lambda>b. 0) (map (item_bucket parse_date age_of now) items)"

datatype freshness_report =
  No_knowledge_found
| Freshness_report nat "age_bucket \<Rightarrow> nat" "knowledge_item list"

text \<open>\<open>now_query\<close> is the clock reading inside \<^verbatim>\<open>get_knowledge_by_recency\<close>,
  \<open>now_report\<close> the later one of the tool itself.\<close>

definition freshness_run :: "(string \<Rightarrow> datetime option) \<Rightarrow> (datetime \<Rightarrow> datetime \<Rightarrow> relativedelta) \<Rightarrow>
    datetime \<Rightarrow> datetime \<Rightarrow> int \<Rightarrow> state \<Rightarrow> py_exc + freshness_report" where
  "freshness_run parse_date age_of now_query now_report days s =
     (case get_knowledge_by_recency parse_date now_query days s of
        Inl e \<Rightarrow> Inl e
      | Inr recent_knowledge \<Rightarrow>
          (if recent_knowledge = [] then Inr No_knowledge_found
           else Inr (Freshness_report (length recent_knowledge)
                       (age_buckets parse_date age_of now_report recent_knowledge)
                       (take 5 recent_knowledge))))"

section \<open>Rewarder and reviewer\<close>

text \<open>
  From \<^verbatim>\<open>src/agents/textgan_agents.py\<close>. The text-generation capability is a function
  from the prompts it has received so far and the new prompt to its response, or to the
  exception it raises; every call is recorded in a log of prompts, so that the number of
  calls can be read off. The prompt templates are parameters.
\<close>

type_synonym llm = "string list \<Rightarrow> string \<Rightarrow> py_exc + string"

definition invoke :: "llm \<Rightarrow> string \<Rightarrow> string list \<Rightarrow> (py_exc + string) \<times> string list" where
  "invoke model prompt calls = (model calls prompt, calls @ [prompt])"

text \<open>What \<^verbatim>\<open>json.loads\<close> returns. A Python dictionary is the list of its items, each
  key once.\<close>

datatype json =
  JNull
| JBool bool
| JNumber real
| JString string
| JArray "json list"
| JObject "(string \<times> json) list"

text \<open>\<^verbatim>\<open>result[k]\<close> with a string \<open>k\<close>: KeyError on a dictionary without the key,
  TypeError on every other value.\<close>

fun getitem :: "json \<Rightarrow> string \<Rightarrow> py_exc + json" where
  "getitem (JObject kvs) k = (case map_of kvs k of None \<Rightarrow> Inl (KeyError k) | Some v \<Rightarrow> Inr v)"
| "getitem JNull k = Inl TypeError"
| "getitem (JBool b) k = Inl TypeError"
| "getitem (JNumber x) k = Inl TypeError"
| "getitem (JString x) k = Inl TypeError"
| "getitem (JArray xs) k = Inl TypeError"

record evaluation =
  e_score :: real
  e_reason :: json

text \<open>The body of the \<^verbatim>\<open>try\<close> in \<^verbatim>\<open>RewarderAgent.evaluate\<close>. The library function
  \<^verbatim>\<open>json.loads\<close> and the builtin \<^verbatim>\<open>float\<close> are the parameters \<open>json_loads\<close> and
  \<open>py_float\<close>; \<^verbatim>\<open>"score"\<close> is evaluated before \<^verbatim>\<open>"reason"\<close>.\<close>

definition parse_evaluation :: "(string \<Rightarrow> py_exc + json) \<Rightarrow> (json \<Rightarrow> py_exc + real) \<Rightarrow> string \<Rightarrow>
    py_exc + evaluation" where
  "parse_evaluation json_loads py_float content =
     (case json_loads content of
        Inl e \<Rightarrow> Inl e
      | Inr result \<Rightarrow>
          (case getitem result ''score'' of
             Inl e \<Rightarrow> Inl e
           | Inr sc \<Rightarrow>
               (case py_float sc of
                  Inl e \<Rightarrow> Inl e
                | Inr x \<Rightarrow>
                    (case getitem result ''reason'' of
                       Inl e \<Rightarrow> Inl e
                     | Inr r \<Rightarrow> Inr \<lparr>e_score = x, e_reason = r\<rparr>))))"

text \<open>The two literal parts of the fallback reason, as UTF-8 bytes: the text before
  \<^verbatim>\<open>str(e)\<close> and the text between it and the raw response.\<close>

definition parse_failure_prefix :: string where
  "parse_failure_prefix =
     [CHR 0xE8, CHR 0xAF, CHR 0x84, CHR 0xE5, CHR 0x88, CHR 0x86, CHR 0xE8, CHR 0xA7,
      CHR 0xA3, CHR 0xE6, CHR 0x9E, CHR 0x90, CHR 0xE5, CHR 0xA4, CHR 0xB1, CHR 0xE8,
      CHR 0xB4, CHR 0xA5, CHR 0x3A, CHR 0x20]"

definition raw_response_infix :: string where
  "raw_response_infix =
     [CHR 0x2E, CHR 0x20, CHR 0xE5, CHR 0x8E, CHR 0x9F, CHR 0xE5, CHR 0xA7, CHR 0x8B,
      CHR 0xE5, CHR 0x93, CHR 0x8D, CHR 0xE5, CHR 0xBA, CHR 0x94, CHR 0x3A, CHR 0x20]"

definition fallback_evaluation :: "(py_exc \<Rightarrow> string) \<Rightarrow> py_exc \<Rightarrow> string \<Rightarrow> evaluation" where
  "fallback_evaluation str_exc e content =
     \<lparr>e_score = 5,
      e_reason = JString (parse_failure_prefix @ str_exc e @ raw_response_infix @ content)\<rparr>"

text \<open>\<^verbatim>\<open>RewarderAgent.evaluate\<close>: the call of the capability is outside the \<^verbatim>\<open>try\<close>,
  so its exception leaves the method; \<open>str_exc\<close> is \<^verbatim>\<open>str(e)\<close>.\<close>

definition evaluate :: "(string \<Rightarrow> py_exc + json) \<Rightarrow> (json \<Rightarrow> py_exc + real) \<Rightarrow> (py_exc \<Rightarrow> string) \<Rightarrow>
    (string \<Rightarrow> string \<Rightarrow> string) \<Rightarrow> llm \<Rightarrow> string \<Rightarrow> string \<Rightarrow> string list \<Rightarrow>
    (py_exc + evaluation) \<times> string list" where
  "evaluate json_loads py_float str_exc prompt model task content calls =
     (case invoke model (prompt task content) calls of
        (Inl e, calls') \<Rightarrow> (Inl e, calls')
      | (Inr response, calls') \<Rightarrow>
          (case parse_evaluation json_loads py_float response of
             Inr ev \<Rightarrow> (Inr ev, calls')
           | Inl e \<Rightarrow> (Inr (fallback_evaluation str_exc e response), calls')))"

text \<open>A response has the expected structure when it is the JSON text of a dictionary with
  a \<^verbatim>\<open>"score"\<close> that \<^verbatim>\<open>float\<close> accepts and a \<^verbatim>\<open>"reason"\<close>.\<close>

definition is_score_reason :: "(string \<Rightarrow> py_exc + json) \<Rightarrow> (json \<Rightarrow> py_exc + real) \<Rightarrow> string \<Rightarrow> bool" where
  "is_score_reason json_loads py_float content =
     (case json_loads content of
        Inr (JObject kvs) \<Rightarrow>
          (case map_of kvs ''score'' of
             Some sc \<Rightarrow> \<not> isl (py_float sc) \<and> map_of kvs ''reason'' \<noteq> None
           | None \<Rightarrow> False)
      | _ \<Rightarrow> False)"

text \<open>The sentence \<^verbatim>\<open>ReviewerAgent.critique\<close> returns for a high score, as UTF-8 bytes.\<close>

definition no_critique_needed :: string where
  "no_critique_needed =
     [CHR 0xE5, CHR 0x86, CHR 0x85, CHR 0xE5, CHR 0xAE, CHR 0xB9, CHR 0xE8, CHR 0xB4,
      CHR 0xA8, CHR 0xE9, CHR 0x87, CHR 0x8F, CHR 0xE8, CHR 0x89, CHR 0xAF, CHR 0xE5,
      CHR 0xA5, CHR 0xBD, CHR 0xEF, CHR 0xBC, CHR 0x8C, CHR 0xE6, CHR 0x97, CHR 0xA0,
      CHR 0xE9, CHR 0x9C, CHR 0x80, CHR 0xE8, CHR 0xAF, CHR 0xA6, CHR 0xE7, CHR 0xBB,
      CHR 0x86, CHR 0xE6, CHR 0x89, CHR 0xB9, CHR 0xE8, CHR 0xAF, CHR 0x84, CHR 0xE3,
      CHR 0x80, CHR 0x82]"

text \<open>\<^verbatim>\<open>ReviewerAgent.critique\<close>; \<open>summary\<close> is \<^verbatim>\<open>get_state_summary\<close>, read only
  on the path that builds the prompt.\<close>

definition critique :: "(string \<Rightarrow> string \<Rightarrow> string \<Rightarrow> real \<Rightarrow> json \<Rightarrow> string) \<Rightarrow> (state \<Rightarrow> string) \<Rightarrow>
    llm \<Rightarrow> string \<Rightarrow> state \<Rightarrow> string \<Rightarrow> real \<Rightarrow> json \<Rightarrow> string list \<Rightarrow>
    (py_exc + string) \<times> string list" where
  "critique prompt summary model task s content score reason calls =
     (if 8 \<le> score then (Inr no_critique_needed, calls)
      else invoke model (prompt task (summary s) content score reason) calls)"

section \<open>Example inputs\<close>

text \<open>Two knowledge items, distinct objects, with the same key.\<close>

definition item_a :: knowledge_item where
  "item_a = \<lparr>object_id = 3, key = ''k1'', k_value = ''first'', source = ''u1'', publish_date = None,
      added_at = ''t1'', confidence = 0.9, goal_id = None, verified = False\<rparr>"

definition item_b :: knowledge_item where
  "item_b = \<lparr>object_id = 4, key = ''k1'', k_value = ''second'', source = ''u2'', publish_date = None,
      added_at = ''t2'', confidence = 0.5, goal_id = None, verified = False\<rparr>"

section \<open>Identifiers of the contradiction ledger\<close>

text \<open>The ids \<^verbatim>\<open>add_contradiction\<close> assigns: the entry at position \<open>i\<close> is
  \<^verbatim>\<open>contra_\<close> followed by \<open>i + 1\<close>.\<close>

definition ledger_ids_ok :: "contradiction list \<Rightarrow> bool" where
  "ledger_ids_ok cs = (\<forall>i<length cs. contra_ident (cs ! i) = ''contra_'' @ str_of_nat (i + 1))"

text \<open>A clock reading on 2026-11-04, a knowledge item without a publish date and one
  published three days before; a date parser that knows this one date, and an age function
  that reports whole days only.\<close>

definition example_now :: datetime where
  "example_now = 63929347200000000"

definition undated_item :: knowledge_item where
  "undated_item = \<lparr>object_id = 1, key = ''k1'', k_value = ''no date'', source = ''u1'', publish_date = None,
      added_at = ''t1'', confidence = 0.9, goal_id = None, verified = False\<rparr>"

definition dated_item :: knowledge_item where
  "dated_item = \<lparr>object_id = 2, key = ''k2'', k_value = ''three days old'', source = ''u2'',
      publish_date = Some ''2026-11-01'', added_at = ''t2'', confidence = 0.7,
      goal_id = None, verified = False\<rparr>"

definition example_parse :: "string \<Rightarrow> datetime option" where
  "example_parse p = (if p = ''2026-11-01'' then Some 63929088000000000 else None)"

definition example_age :: "datetime \<Rightarrow> datetime \<Rightarrow> relativedelta" where
  "example_age t d = \<lparr>rd_years = 0, rd_months = 0, rd_days = (t - d) div microseconds_per_day\<rparr>"

section \<open>Properties of the generation ledger\<close>

lemma length_history_add_generations:
  "length (history (add_generations gs s)) = length (history s) + length gs"
  by (induction gs arbitrary: s) (auto simp: add_generation_def)

lemma history_prefix_add_generations:
  "\<exists>hs. history (add_generations gs s) = history s @ hs"
proof (induction gs arbitrary: s)
  case Nil
  then show ?case by simp
next
  case (Cons g gs)
  obtain now c sc cr where g: "g = (now, c, sc, cr)" by (cases g) auto
  obtain hs where "history (add_generations gs (add_generation now c sc cr s))
      = history (add_generation now c sc cr s) @ hs"
    using Cons.IH by blast
  then show ?case by (simp add: g add_generation_def)
qed

text \<open>
  Claim C1, as amended. After \<^verbatim>\<open>add_generation(c2, s2, r2)\<close> the history is not empty,
  its last entry holds the content, score and criticism that were current before the call,
  and the current triple is \<open>(c2, s2, r2)\<close>. The last entry equals the committed triple
  exactly when the previous current triple already was that triple.
\<close>

theorem add_generation_archives_previous:
  "history (add_generation now c2 s2 r2 s) \<noteq> [] \<and>
   record_triple (last (history (add_generation now c2 s2 r2 s))) = current_triple s \<and>
   current_triple (add_generation now c2 s2 r2 s) = (Some c2, Some s2, Some r2) \<and>
   (record_triple (last (history (add_generation now c2 s2 r2 s))) = (Some c2, Some s2, Some r2)
      \<longleftrightarrow> current_triple s = (Some c2, Some s2, Some r2))"
  by (simp add: add_generation_def record_triple_def current_triple_def)

text \<open>The amended claim C1 at a state whose current triple is \<open>(a, 9, ok)\<close>, committing
  \<open>(b, 7, weak)\<close>: the archived triple is the old one and differs from the new one.\<close>

theorem add_generation_archives_previous_witness:
  "record_triple (last (history (add_generation ''t2'' ''b'' 7 ''weak''
      (add_generation ''t1'' ''a'' 9 ''ok'' (new_state ''1'' ''T'')))))
     = (Some ''a'', Some 9, Some ''ok'') \<and>
   record_triple (last (history (add_generation ''t2'' ''b'' 7 ''weak''
      (add_generation ''t1'' ''a'' 9 ''ok'' (new_state ''1'' ''T'')))))
     \<noteq> (Some ''b'', Some 7, Some ''weak'') \<and>
   current_triple (add_generation ''t2'' ''b'' 7 ''weak''
      (add_generation ''t1'' ''a'' 9 ''ok'' (new_state ''1'' ''T'')))
     = (Some ''b'', Some 7, Some ''weak'')"
  using add_generation_archives_previous [of "''t2''" "''b''" 7 "''weak''"
      "add_generation ''t1'' ''a'' 9 ''ok'' (new_state ''1'' ''T'')"]
  by (simp add: add_generation_def current_triple_def new_state_def)

text \<open>Claim C1 as stated fails when the same triple is committed twice in a row (the
  generator repeats its text, the score is the same and the critique is the fixed sentence
  for a high score): the last history entry then equals the triple just committed.\<close>

theorem add_generation_repeated_commit_counterexample:
  "record_triple (last (history (add_generation ''t2'' ''a'' 9 ''ok''
      (add_generation ''t1'' ''a'' 9 ''ok'' (new_state ''1'' ''T'')))))
     = (Some ''a'', Some 9, Some ''ok'')"
  by (simp add: add_generation_def record_triple_def new_state_def)

text \<open>
  Claim C10. Starting from a fresh state, after any sequence of \<open>n\<close> \<^verbatim>\<open>add_generation\<close>
  calls the history has exactly \<open>n\<close> entries, and when there was at least one call the
  first history entry records content, score and criticism all \<^verbatim>\<open>None\<close>.
\<close>

theorem first_commit_archives_placeholder:
  "length (history (add_generations gs (new_state tid descr))) = length gs \<and>
   (gs \<noteq> [] \<longrightarrow>
      record_triple (hd (history (add_generations gs (new_state tid descr)))) = (None, None, None))"
proof (cases gs)
  case Nil
  then show ?thesis by (simp add: new_state_def)
next
  case (Cons g gs')
  obtain now c sc cr where g: "g = (now, c, sc, cr)" by (cases g) auto
  obtain hs where "history (add_generations gs' (add_generation now c sc cr (new_state tid descr)))
      = history (add_generation now c sc cr (new_state tid descr)) @ hs"
    using history_prefix_add_generations by blast
  then have "hd (history (add_generations gs (new_state tid descr)))
      = \<lparr>h_timestamp = now, h_content = None, h_score = None, h_criticism = None\<rparr>"
    by (simp add: Cons g add_generation_def new_state_def)
  then show ?thesis
    by (simp add: length_history_add_generations record_triple_def new_state_def)
qed

text \<open>Claim C10 at two commits from a fresh state.\<close>

theorem first_commit_archives_placeholder_witness:
  "[(''t1'', ''a'', 9, ''ok''), (''t2'', ''b'', 7, ''weak'')] \<noteq> ([] :: (timestamp \<times> string \<times> real \<times> string) list) \<and>
   length (history (add_generations [(''t1'', ''a'', 9, ''ok''), (''t2'', ''b'', 7, ''weak'')] (new_state ''1'' ''T''))) = 2 \<and>
   record_triple (hd (history (add_generations [(''t1'', ''a'', 9, ''ok''), (''t2'', ''b'', 7, ''weak'')] (new_state ''1'' ''T'')))) = (None, None, None)"
  using first_commit_archives_placeholder [of "[(''t1'', ''a'', 9, ''ok''), (''t2'', ''b'', 7, ''weak'')]" "''1''" "''T''"]
  by simp

section \<open>Properties of the reviewer and the rewarder\<close>

lemma parse_evaluation_structure:
  "is_score_reason json_loads py_float content \<longleftrightarrow> \<not> isl (parse_evaluation json_loads py_float content)"
proof (cases "json_loads content")
  case (Inl e)
  then show ?thesis by (simp add: is_score_reason_def parse_evaluation_def)
next
  case (Inr result)
  then show ?thesis
    by (cases result)
       (auto simp: is_score_reason_def parse_evaluation_def split: option.splits sum.splits)
qed

text \<open>
  Claim C3. For every score of at least 8.0 \<^verbatim>\<open>critique\<close> returns the fixed sentence and
  the log of capability calls is unchanged (zero calls); for every score below 8.0 it
  calls the capability exactly once, with the reviewer prompt, and returns what the
  capability returns.
\<close>

theorem critique_short_circuit:
  "(8 \<le> score \<longrightarrow>
      critique prompt summary model task s content score reason calls = (Inr no_critique_needed, calls)) \<and>
   (score < 8 \<longrightarrow>
      fst (critique prompt summary model task s content score reason calls)
        = model calls (prompt task (summary s) content score reason) \<and>
      snd (critique prompt summary model task s content score reason calls)
        = calls @ [prompt task (summary s) content score reason] \<and>
      length (snd (critique prompt summary model task s content score reason calls)) = length calls + 1)"
  by (simp add: critique_def invoke_def)

text \<open>Claim C3 at the scores 9 and 5 with a capability that always answers the same.\<close>

theorem critique_short_circuit_witness:
  "(8::real) \<le> 9 \<and> (5::real) < 8 \<and>
   critique (\<lambda>t sm c sc r. t @ c) (\<lambda>s. ''summary'') (\<lambda>calls p. Inr ''be specific'')
       ''T'' (new_state ''1'' ''T'') ''draft'' 9 (JString ''fine'') []
     = (Inr no_critique_needed, []) \<and>
   critique (\<lambda>t sm c sc r. t @ c) (\<lambda>s. ''summary'') (\<lambda>calls p. Inr ''be specific'')
       ''T'' (new_state ''1'' ''T'') ''draft'' 5 (JString ''thin'') []
     = (Inr ''be specific'', [''Tdraft''])"
  using critique_short_circuit [of 9 "\<lambda>t sm c sc r. t @ c" "\<lambda>s. ''summary''" "\<lambda>calls p. Inr ''be specific''"
      "''T''" "new_state ''1'' ''T''" "''draft''" "JString ''fine''" "[]"]
    critique_short_circuit [of 5 "\<lambda>t sm c sc r. t @ c" "\<lambda>s. ''summary''" "\<lambda>calls p. Inr ''be specific''"
      "''T''" "new_state ''1'' ''T''" "''draft''" "JString ''thin''" "[]"]
  by (simp add: prod_eq_iff)

text \<open>
  Claim C4. When the capability returns a response that does not have the expected
  score and reason structure, \<^verbatim>\<open>evaluate\<close> returns normally with score 5.0 and a reason
  made of the failure prefix, the text of the exception and the raw response, both of
  which occur in it.
\<close>

theorem evaluate_fails_soft:
  assumes "model calls (prompt task content) = Inr response"
    and "\<not> is_score_reason json_loads py_float response"
  shows "\<exists>e. parse_evaluation json_loads py_float response = Inl e \<and>
      evaluate json_loads py_float str_exc prompt model task content calls
        = (Inr \<lparr>e_score = 5,
                e_reason = JString (parse_failure_prefix @ str_exc e @ raw_response_infix @ response)\<rparr>,
           calls @ [prompt task content]) \<and>
      sublist (str_exc e) (parse_failure_prefix @ str_exc e @ raw_response_infix @ response) \<and>
      sublist response (parse_failure_prefix @ str_exc e @ raw_response_infix @ response)"
proof -
  from assms(2) obtain e where e: "parse_evaluation json_loads py_float response = Inl e"
    by (auto simp: parse_evaluation_structure isl_def)
  have "evaluate json_loads py_float str_exc prompt model task content calls
        = (Inr (fallback_evaluation str_exc e response), calls @ [prompt task content])"
    by (simp add: evaluate_def invoke_def assms(1) e)
  moreover have "sublist (str_exc e) (parse_failure_prefix @ str_exc e @ raw_response_infix @ response)"
    by (rule sublist_appendI)
  moreover have "sublist response (parse_failure_prefix @ str_exc e @ raw_response_infix @ response)"
    by (simp add: sublist_def) (metis append.assoc append_Nil2)
  ultimately show ?thesis
    using e by (auto simp: fallback_evaluation_def)
qed

text \<open>Claim C4 at a response that is no JSON text.\<close>

theorem evaluate_fails_soft_witness:
  "(\<lambda>calls p. Inr ''eight out of ten'' :: py_exc + string) [] (''T'' @ ''draft'') = Inr ''eight out of ten'' \<and>
   \<not> is_score_reason (\<lambda>c. Inl (JSONDecodeError ''Expecting value'')) (\<lambda>j. Inl TypeError) ''eight out of ten'' \<and>
   evaluate (\<lambda>c. Inl (JSONDecodeError ''Expecting value'')) (\<lambda>j. Inl TypeError)
       (\<lambda>e. case e of JSONDecodeError m \<Rightarrow> m | _ \<Rightarrow> ''error'') (\<lambda>t c. t @ c)
       (\<lambda>calls p. Inr ''eight out of ten'') ''T'' ''draft'' []
     = (Inr \<lparr>e_score = 5,
             e_reason = JString (parse_failure_prefix @ ''Expecting value'' @ raw_response_infix @ ''eight out of ten'')\<rparr>,
        [''Tdraft''])"
  using evaluate_fails_soft [of "\<lambda>calls p. Inr ''eight out of ten''" "[]" "\<lambda>t c. t @ c" "''T''" "''draft''"
      "''eight out of ten''" "\<lambda>c. Inl (JSONDecodeError ''Expecting value'')" "\<lambda>j. Inl TypeError"
      "\<lambda>e. case e of JSONDecodeError m \<Rightarrow> m | _ \<Rightarrow> ''error''"]
  by (simp add: is_score_reason_def parse_evaluation_def)

section \<open>Properties of identifiers\<close>

lemma str_of_nat_digit: "n < 10 \<Longrightarrow> str_of_nat n = [digit_char n]"
  by (subst str_of_nat.simps) simp

lemma digit_cases:
  "d < (10::nat) \<Longrightarrow> d = 0 \<or> d = 1 \<or> d = 2 \<or> d = 3 \<or> d = 4 \<or> d = 5 \<or> d = 6 \<or> d = 7 \<or> d = 8 \<or> d = 9"
  by presburger

lemma of_char_digit_char: "d < 10 \<Longrightarrow> (of_char (digit_char d) :: nat) = 48 + d"
  using digit_cases [of d] by (auto simp: digit_char_def)

lemma digit_char_inj: "a < 10 \<Longrightarrow> b < 10 \<Longrightarrow> digit_char a = digit_char b \<Longrightarrow> a = b"
proof -
  assume a: "a < 10" and b: "b < 10" and eq: "digit_char a = digit_char b"
  have "(of_char (digit_char a) :: nat) = of_char (digit_char b)" using eq by simp
  then have "48 + a = 48 + b"
    using of_char_digit_char [OF a] of_char_digit_char [OF b] by (simp only:)
  then show "a = b" by simp
qed

lemma str_of_nat_not_Nil: "str_of_nat n \<noteq> []"
  by (subst str_of_nat.simps) simp

lemma str_of_nat_inj: "str_of_nat m = str_of_nat n \<Longrightarrow> m = n"
proof (induction m arbitrary: n rule: str_of_nat.induct)
  case (1 m)
  show ?case
  proof (cases "m < 10")
    case m: True
    show ?thesis
    proof (cases "n < 10")
      case True
      with m "1.prems" show ?thesis
        by (simp add: str_of_nat_digit digit_char_inj)
    next
      case False
      then have "str_of_nat n = str_of_nat (n div 10) @ [digit_char (n mod 10)]"
        by (subst str_of_nat.simps) simp
      with m "1.prems" have "str_of_nat (n div 10) = []"
        by (simp add: str_of_nat_digit)
      then show ?thesis by (simp add: str_of_nat_not_Nil)
    qed
  next
    case m: False
    then have em: "str_of_nat m = str_of_nat (m div 10) @ [digit_char (m mod 10)]"
      by (subst str_of_nat.simps) simp
    show ?thesis
    proof (cases "n < 10")
      case True
      with em "1.prems" have "str_of_nat (m div 10) = []"
        by (simp add: str_of_nat_digit)
      then show ?thesis by (simp add: str_of_nat_not_Nil)
    next
      case False
      then have "str_of_nat n = str_of_nat (n div 10) @ [digit_char (n mod 10)]"
        by (subst str_of_nat.simps) simp
      with em "1.prems" have eq: "str_of_nat (m div 10) = str_of_nat (n div 10)"
        and d: "digit_char (m mod 10) = digit_char (n mod 10)" by simp_all
      from "1.IH" [OF m eq] have "m div 10 = n div 10" .
      moreover from d have "m mod 10 = n mod 10" by (intro digit_char_inj) simp_all
      ultimately show ?thesis by (metis div_mult_mod_eq)
    qed
  qed
qed

section \<open>Properties of the goal tracker\<close>

lemma length_set_goal_status [simp]:
  "length (set_goal_status now gid status gs) = length gs"
  by (induction gs) (auto simp: Let_def)

lemma set_goal_status_target:
  "i < length gs \<Longrightarrow> goal_ident (gs ! i) = gid \<Longrightarrow> \<forall>j<i. goal_ident (gs ! j) \<noteq> gid \<Longrightarrow>
   set_goal_status now gid status gs ! i =
     (gs ! i)\<lparr>goal_status := status,
                completed_at := (if status = ''completed'' then Some now else completed_at (gs ! i))\<rparr>"
proof (induction gs arbitrary: i)
  case Nil
  then show ?case by simp
next
  case (Cons g gs)
  show ?case
  proof (cases i)
    case 0
    with Cons.prems show ?thesis by (simp add: Let_def)
  next
    case (Suc k)
    with Cons.prems have "goal_ident g \<noteq> gid" by auto
    moreover from Cons.prems Suc have "set_goal_status now gid status gs ! k =
       (gs ! k)\<lparr>goal_status := status,
                  completed_at := (if status = ''completed'' then Some now else completed_at (gs ! k))\<rparr>"
      by (intro Cons.IH) (auto simp: All_less_Suc2)
    ultimately show ?thesis using Suc by simp
  qed
qed

lemma set_goal_status_other:
  "i < length gs \<Longrightarrow> goal_ident (gs ! i) \<noteq> gid \<or> (\<exists>j<i. goal_ident (gs ! j) = gid) \<Longrightarrow>
   set_goal_status now gid status gs ! i = gs ! i"
proof (induction gs arbitrary: i)
  case Nil
  then show ?case by simp
next
  case (Cons g gs)
  show ?case
  proof (cases "goal_ident g = gid")
    case True
    with Cons.prems show ?thesis by (cases i) auto
  next
    case False
    show ?thesis
    proof (cases i)
      case 0
      with False show ?thesis by simp
    next
      case (Suc k)
      with Cons.prems False
      have "goal_ident (gs ! k) \<noteq> gid \<or> (\<exists>j<k. goal_ident (gs ! j) = gid)"
        by (auto simp: less_Suc_eq_0_disj)
      with Cons.prems Suc have "set_goal_status now gid status gs ! k = gs ! k"
        by (intro Cons.IH) auto
      with False Suc show ?thesis by simp
    qed
  qed
qed

text \<open>
  Claim C8. For every goal and every \<^verbatim>\<open>update_goal_status\<close> call: the goal's id,
  description, creation time and the two reference lists are unchanged. The goal the call
  applies to (the first one with the given id) gets the new status, and its
  \<^verbatim>\<open>completed_at\<close> is set to the time stamp of the call when the new status is
  \<^verbatim>\<open>"completed"\<close> and keeps its previous value for every other status. Every other goal
  is unchanged.
\<close>

theorem update_goal_status_frame:
  assumes "i < length (decomposed_goals s)"
  shows
   "length (decomposed_goals (update_goal_status now gid status s)) = length (decomposed_goals s) \<and>
    goal_ident (decomposed_goals (update_goal_status now gid status s) ! i) = goal_ident (decomposed_goals s ! i) \<and>
    goal_description (decomposed_goals (update_goal_status now gid status s) ! i) = goal_description (decomposed_goals s ! i) \<and>
    created_at (decomposed_goals (update_goal_status now gid status s) ! i) = created_at (decomposed_goals s ! i) \<and>
    related_searches (decomposed_goals (update_goal_status now gid status s) ! i) = related_searches (decomposed_goals s ! i) \<and>
    related_knowledge (decomposed_goals (update_goal_status now gid status s) ! i) = related_knowledge (decomposed_goals s ! i) \<and>
    (if goal_ident (decomposed_goals s ! i) = gid \<and> (\<forall>j<i. goal_ident (decomposed_goals s ! j) \<noteq> gid)
     then goal_status (decomposed_goals (update_goal_status now gid status s) ! i) = status \<and>
          completed_at (decomposed_goals (update_goal_status now gid status s) ! i)
            = (if status = ''completed'' then Some now else completed_at (decomposed_goals s ! i))
     else decomposed_goals (update_goal_status now gid status s) ! i = decomposed_goals s ! i)"
proof (cases "goal_ident (decomposed_goals s ! i) = gid \<and> (\<forall>j<i. goal_ident (decomposed_goals s ! j) \<noteq> gid)")
  case True
  then have "set_goal_status now gid status (decomposed_goals s) ! i =
       (decomposed_goals s ! i)\<lparr>goal_status := status,
          completed_at := (if status = ''completed'' then Some now else completed_at (decomposed_goals s ! i))\<rparr>"
    using assms by (intro set_goal_status_target) auto
  with True show ?thesis by (simp add: update_goal_status_def)
next
  case False
  then have "set_goal_status now gid status (decomposed_goals s) ! i = decomposed_goals s ! i"
    using assms by (intro set_goal_status_other) auto
  with False show ?thesis by (auto simp: update_goal_status_def)
qed

text \<open>Claim C8 at the second of two goals, completed and then moved back to in_progress:
  the completion time stays.\<close>

theorem update_goal_status_frame_witness:
  "(1::nat) < length (decomposed_goals
      (update_goal_status ''t3'' ''goal_2'' ''completed''
        (snd (add_goal ''t2'' ''B'' ''pending'' (snd (add_goal ''t1'' ''A'' ''pending'' (new_state ''1'' ''T''))))))) \<and>
   decomposed_goals (update_goal_status ''t4'' ''goal_2'' ''in_progress''
      (update_goal_status ''t3'' ''goal_2'' ''completed''
        (snd (add_goal ''t2'' ''B'' ''pending'' (snd (add_goal ''t1'' ''A'' ''pending'' (new_state ''1'' ''T''))))))) ! 1
     = \<lparr>goal_ident = ''goal_2'', goal_description = ''B'', goal_status = ''in_progress'',
        created_at = ''t2'', completed_at = Some ''t3'', related_searches = [], related_knowledge = []\<rparr>"
  using update_goal_status_frame [of 1 "update_goal_status ''t3'' ''goal_2'' ''completed''
        (snd (add_goal ''t2'' ''B'' ''pending'' (snd (add_goal ''t1'' ''A'' ''pending'' (new_state ''1'' ''T'')))))"
      "''t4''" "''goal_2''" "''in_progress''"]
  by (simp add: update_goal_status_def add_goal_def new_state_def str_of_nat_digit digit_char_def Let_def)


section \<open>Properties of the knowledge store\<close>

lemma get_knowledge_item_first:
  "i < length items \<Longrightarrow> key (items ! i) = k \<Longrightarrow> \<forall>j<i. key (items ! j) \<noteq> k \<Longrightarrow>
   get_knowledge_item k items = Some (items ! i)"
proof (induction items arbitrary: i)
  case Nil
  then show ?case by simp
next
  case (Cons item items)
  show ?case
  proof (cases i)
    case 0
    with Cons.prems show ?thesis by simp
  next
    case (Suc n)
    with Cons.prems have "key item \<noteq> k" by auto
    moreover from Cons.prems Suc have "get_knowledge_item k items = Some (items ! n)"
      by (intro Cons.IH) (auto simp: All_less_Suc2)
    ultimately show ?thesis using Suc by simp
  qed
qed

lemma get_knowledge_item_absent:
  "k \<notin> key ` set items \<Longrightarrow> get_knowledge_item k items = None"
  by (induction items) auto

lemma update_loop_first:
  "i < length items \<Longrightarrow> key (items ! i) = k \<Longrightarrow> \<forall>j<i. key (items ! j) \<noteq> k \<Longrightarrow>
   update_loop k us items =
     Some (items ! i, fst (setattrs (items ! i) us), snd (setattrs (items ! i) us))"
proof (induction items arbitrary: i)
  case Nil
  then show ?case by simp
next
  case (Cons item items)
  show ?case
  proof (cases i)
    case 0
    with Cons.prems show ?thesis
      by (cases "setattrs item us") simp
  next
    case (Suc n)
    with Cons.prems have "key item \<noteq> k" by auto
    moreover from Cons.prems Suc have "update_loop k us items =
       Some (items ! n, fst (setattrs (items ! n) us), snd (setattrs (items ! n) us))"
      by (intro Cons.IH) (auto simp: All_less_Suc2)
    ultimately show ?thesis using Suc by simp
  qed
qed

lemma update_loop_absent:
  "k \<notin> key ` set items \<Longrightarrow> update_loop k us items = None"
  by (induction items) auto

text \<open>The assignments keep the identity of the object.\<close>

lemma object_id_setattrs: "object_id (fst (setattrs item us)) = object_id item"
proof (induction us arbitrary: item)
  case Nil
  then show ?case by simp
next
  case (Cons u us)
  show ?case
    by (cases u) (simp_all add: Cons.IH)
qed

text \<open>Where no other position of the list holds the object, writing it changes that one
  position.\<close>

lemma write_object_unshared:
  assumes "i < length items"
    and "\<forall>j<length items. j \<noteq> i \<longrightarrow> object_id (items ! j) \<noteq> object_id (items ! i)"
  shows "write_object (items ! i) new items = items[i := new]"
  using assms by (auto simp: write_object_def intro!: nth_equalityI simp: nth_list_update)

text \<open>
  Claim C9. \<^verbatim>\<open>add_knowledge\<close> appends the item whatever its key, so items with the same
  key coexist. In a call whose keywords bind (none is named like a parameter of the
  method): where a key occurs in the knowledge base, \<^verbatim>\<open>get_knowledge_item\<close> returns the
  first item with that key and \<^verbatim>\<open>update_knowledge_item\<close> assigns to that object, whose
  new fields show at every position holding it, and to no other; for a key that does not
  occur, lookup returns \<^verbatim>\<open>None\<close> and the update returns \<^verbatim>\<open>False\<close> and leaves the
  state as it is. A call with a keyword that does not bind raises TypeError before the
  method runs and changes nothing.
\<close>

theorem knowledge_store_first_match:
  "knowledge_base (snd (add_knowledge item s)) = knowledge_base s @ [item] \<and>
   (\<not> list_ex binds_parameter us \<and>
    i < length (knowledge_base s) \<and> key (knowledge_base s ! i) = k \<and>
    (\<forall>j<i. key (knowledge_base s ! j) \<noteq> k) \<longrightarrow>
      get_knowledge_item k (knowledge_base s) = Some (knowledge_base s ! i) \<and>
      update_knowledge_item k us s =
        (case snd (setattrs (knowledge_base s ! i) us) of None \<Rightarrow> Inr True | Some e \<Rightarrow> Inl e,
         s\<lparr>knowledge_base :=
             map (\<lambda>x. if object_id x = object_id (knowledge_base s ! i)
                       then fst (setattrs (knowledge_base s ! i) us) else x)
                 (knowledge_base s)\<rparr>)) \<and>
   (\<not> list_ex binds_parameter us \<and> k \<notin> key ` set (knowledge_base s) \<longrightarrow>
      get_knowledge_item k (knowledge_base s) = None \<and>
      update_knowledge_item k us s = (Inr False, s)) \<and>
   (list_ex binds_parameter us \<longrightarrow> update_knowledge_item k us s = (Inl TypeError, s))"
proof -
  have "knowledge_base (snd (add_knowledge item s)) = knowledge_base s @ [item]"
    by (simp add: add_knowledge_def Let_def split: option.splits)
  moreover have "\<not> list_ex binds_parameter us \<and> k \<notin> key ` set (knowledge_base s) \<longrightarrow>
      get_knowledge_item k (knowledge_base s) = None \<and>
      update_knowledge_item k us s = (Inr False, s)"
    by (simp add: get_knowledge_item_absent update_loop_absent update_knowledge_item_def)
  moreover have "list_ex binds_parameter us \<longrightarrow> update_knowledge_item k us s = (Inl TypeError, s)"
    by (simp add: update_knowledge_item_def)
  moreover have "\<not> list_ex binds_parameter us \<and>
    i < length (knowledge_base s) \<and> key (knowledge_base s ! i) = k \<and>
    (\<forall>j<i. key (knowledge_base s ! j) \<noteq> k) \<longrightarrow>
      get_knowledge_item k (knowledge_base s) = Some (knowledge_base s ! i) \<and>
      update_knowledge_item k us s =
        (case snd (setattrs (knowledge_base s ! i) us) of None \<Rightarrow> Inr True | Some e \<Rightarrow> Inl e,
         s\<lparr>knowledge_base :=
             map (\<lambda>x. if object_id x = object_id (knowledge_base s ! i)
                       then fst (setattrs (knowledge_base s ! i) us) else x)
                 (knowledge_base s)\<rparr>)"
  proof (intro impI, elim conjE)
    assume b: "\<not> list_ex binds_parameter us"
    assume a: "i < length (knowledge_base s)" "key (knowledge_base s ! i) = k"
      "\<forall>j<i. key (knowledge_base s ! j) \<noteq> k"
    show "get_knowledge_item k (knowledge_base s) = Some (knowledge_base s ! i) \<and>
      update_knowledge_item k us s =
        (case snd (setattrs (knowledge_base s ! i) us) of None \<Rightarrow> Inr True | Some e \<Rightarrow> Inl e,
         s\<lparr>knowledge_base :=
             map (\<lambda>x. if object_id x = object_id (knowledge_base s ! i)
                       then fst (setattrs (knowledge_base s ! i) us) else x)
                 (knowledge_base s)\<rparr>)"
      using get_knowledge_item_first [OF a] update_loop_first [OF a, of us] b
      by (simp add: update_knowledge_item_def write_object_def split: prod.splits)
  qed
  ultimately show ?thesis by blast
qed

text \<open>Claim C9 at a knowledge base in which the key \<^verbatim>\<open>k1\<close> occurs three times behind an
  item with another key: in two different objects, the first of which was added twice.
  The update shows at both positions of that object and not at the other one.\<close>

theorem knowledge_store_first_match_witness:
  "knowledge_base (snd (add_knowledge item_a
       ((new_state ''1'' ''T'')\<lparr>knowledge_base := [dated_item, item_a, item_b]\<rparr>)))
     = [dated_item, item_a, item_b, item_a] \<and>
   \<not> list_ex binds_parameter [Set_verified True] \<and>
   (1::nat) < length [dated_item, item_a, item_b, item_a] \<and>
   key ([dated_item, item_a, item_b, item_a] ! 1) = ''k1'' \<and>
   key ([dated_item, item_a, item_b, item_a] ! 0) \<noteq> ''k1'' \<and>
   get_knowledge_item ''k1'' [dated_item, item_a, item_b, item_a] = Some item_a \<and>
   update_knowledge_item ''k1'' [Set_verified True]
       ((new_state ''1'' ''T'')\<lparr>knowledge_base := [dated_item, item_a, item_b, item_a]\<rparr>)
     = (Inr True,
        (new_state ''1'' ''T'')\<lparr>knowledge_base :=
           [dated_item, item_a\<lparr>verified := True\<rparr>, item_b, item_a\<lparr>verified := True\<rparr>]\<rparr>) \<and>
   ''k9'' \<notin> key ` set [dated_item, item_a, item_b, item_a] \<and>
   update_knowledge_item ''k9'' [Set_verified True]
       ((new_state ''1'' ''T'')\<lparr>knowledge_base := [dated_item, item_a, item_b, item_a]\<rparr>)
     = (Inr False, (new_state ''1'' ''T'')\<lparr>knowledge_base := [dated_item, item_a, item_b, item_a]\<rparr>) \<and>
   list_ex binds_parameter [Set_verified True, Set_key ''k3''] \<and>
   update_knowledge_item ''k1'' [Set_verified True, Set_key ''k3'']
       ((new_state ''1'' ''T'')\<lparr>knowledge_base := [dated_item, item_a, item_b, item_a]\<rparr>)
     = (Inl TypeError, (new_state ''1'' ''T'')\<lparr>knowledge_base := [dated_item, item_a, item_b, item_a]\<rparr>)"
  using knowledge_store_first_match [of item_a
      "(new_state ''1'' ''T'')\<lparr>knowledge_base := [dated_item, item_a, item_b]\<rparr>" "[Set_verified True]" 1 "''k1''"]
    knowledge_store_first_match [of item_a
      "(new_state ''1'' ''T'')\<lparr>knowledge_base := [dated_item, item_a, item_b, item_a]\<rparr>" "[Set_verified True]" 1 "''k1''"]
    knowledge_store_first_match [of item_a
      "(new_state ''1'' ''T'')\<lparr>knowledge_base := [dated_item, item_a, item_b, item_a]\<rparr>" "[Set_verified True]" 1 "''k9''"]
    knowledge_store_first_match [of item_a
      "(new_state ''1'' ''T'')\<lparr>knowledge_base := [dated_item, item_a, item_b, item_a]\<rparr>"
      "[Set_verified True, Set_key ''k3'']" 1 "''k1''"]
  by (simp add: new_state_def item_a_def item_b_def dated_item_def binds_parameter_def)

section \<open>Properties of the contradiction ledger\<close>

lemma set_contradiction_status_idents:
  "map contra_ident (fst (set_contradiction_status cid status res cs)) = map contra_ident cs"
  by (induction cs) (auto simp: Let_def split: prod.splits)

lemma set_contradiction_status_absent:
  "cid \<notin> contra_ident ` set cs \<Longrightarrow> set_contradiction_status cid status res cs = (cs, False)"
  by (induction cs) auto

lemma set_contradiction_status_first:
  "i < length cs \<Longrightarrow> contra_ident (cs ! i) = cid \<Longrightarrow> \<forall>j<i. contra_ident (cs ! j) \<noteq> cid \<Longrightarrow>
   set_contradiction_status cid status res cs =
     (cs[i := (cs ! i)\<lparr>contra_status := status,
            resolution_attempt_description :=
              (if truthy res then res else resolution_attempt_description (cs ! i))\<rparr>], True)"
proof (induction cs arbitrary: i)
  case Nil
  then show ?case by simp
next
  case (Cons c cs)
  show ?case
  proof (cases i)
    case 0
    with Cons.prems show ?thesis by (simp add: Let_def)
  next
    case (Suc n)
    with Cons.prems have "contra_ident c \<noteq> cid" by auto
    moreover from Cons.prems Suc have "set_contradiction_status cid status res cs =
       (cs[n := (cs ! n)\<lparr>contra_status := status,
            resolution_attempt_description :=
              (if truthy res then res else resolution_attempt_description (cs ! n))\<rparr>], True)"
      by (intro Cons.IH) (auto simp: All_less_Suc2)
    ultimately show ?thesis using Suc by simp
  qed
qed

lemma ledger_ids_ok_step:
  "ledger_ids_ok (contradictions s) \<Longrightarrow> ledger_ids_ok (contradictions (contra_step s op))"
proof (cases op)
  case (Add_contradiction ids descr)
  assume "ledger_ids_ok (contradictions s)"
  then show ?thesis
    by (auto simp: Add_contradiction add_contradiction_def Let_def ledger_ids_ok_def nth_append less_Suc_eq)
next
  case (Update_contradiction_status cid status res)
  assume ok: "ledger_ids_ok (contradictions s)"
  have "map contra_ident (contradictions (contra_step s op)) = map contra_ident (contradictions s)"
    using set_contradiction_status_idents [of cid status res "contradictions s"]
    by (auto simp: Update_contradiction_status update_contradiction_status_def split: prod.splits)
  then have "length (contradictions (contra_step s op)) = length (contradictions s)"
    and "\<forall>i<length (contradictions s).
      contra_ident (contradictions (contra_step s op) ! i) = contra_ident (contradictions s ! i)"
    by (metis length_map, metis length_map nth_map)
  with ok show ?thesis by (simp add: ledger_ids_ok_def)
qed

lemma ledger_ids_ok_run:
  "ledger_ids_ok (contradictions s) \<Longrightarrow> ledger_ids_ok (contradictions (run_contra_ops ops s))"
  unfolding run_contra_ops_def
  by (induction ops arbitrary: s) (auto intro: ledger_ids_ok_step)

lemma ledger_ids_distinct:
  assumes "ledger_ids_ok cs" "i < length cs" "j < length cs" "contra_ident (cs ! i) = contra_ident (cs ! j)"
  shows "i = j"
proof -
  from assms have "str_of_nat (i + 1) = str_of_nat (j + 1)" by (simp add: ledger_ids_ok_def)
  then have "i + 1 = j + 1" by (rule str_of_nat_inj)
  then show ?thesis by simp
qed

text \<open>
  Claim C7, as amended. In a ledger built by \<^verbatim>\<open>add_contradiction\<close> and
  \<^verbatim>\<open>update_contradiction_status\<close> calls, resolving a recorded contradiction by its id
  returns \<^verbatim>\<open>True\<close>, overwrites its status, overwrites its resolution text when the
  given text is neither \<^verbatim>\<open>None\<close> nor empty and keeps the previous text otherwise, and
  changes nothing else: description, conflicting keys and every other entry stay. For an
  id that matches no entry of a ledger the call returns \<^verbatim>\<open>False\<close> and the state is
  unchanged.
\<close>

theorem update_contradiction_status_contract:
  "(i < length (contradictions (run_contra_ops ops (new_state tid descr))) \<longrightarrow>
      update_contradiction_status
          (contra_ident (contradictions (run_contra_ops ops (new_state tid descr)) ! i)) status res
          (run_contra_ops ops (new_state tid descr))
        = (True,
           (run_contra_ops ops (new_state tid descr))
             \<lparr>contradictions := (contradictions (run_contra_ops ops (new_state tid descr)))
                [i := (contradictions (run_contra_ops ops (new_state tid descr)) ! i)
                   \<lparr>contra_status := status,
                    resolution_attempt_description :=
                      (if truthy res then res
                       else resolution_attempt_description
                              (contradictions (run_contra_ops ops (new_state tid descr)) ! i))\<rparr>]\<rparr>)) \<and>
   (cid \<notin> contra_ident ` set (contradictions s) \<longrightarrow>
      update_contradiction_status cid status res s = (False, s))"
proof -
  let ?s = "run_contra_ops ops (new_state tid descr)"
  have ok: "ledger_ids_ok (contradictions ?s)"
    by (rule ledger_ids_ok_run) (simp add: ledger_ids_ok_def new_state_def)
  have "update_contradiction_status (contra_ident (contradictions ?s ! i)) status res ?s
        = (True, ?s\<lparr>contradictions := (contradictions ?s)
                [i := (contradictions ?s ! i)
                   \<lparr>contra_status := status,
                    resolution_attempt_description :=
                      (if truthy res then res
                       else resolution_attempt_description (contradictions ?s ! i))\<rparr>]\<rparr>)"
    if i: "i < length (contradictions ?s)"
  proof -
    have "\<forall>j<i. contra_ident (contradictions ?s ! j) \<noteq> contra_ident (contradictions ?s ! i)"
      using ledger_ids_distinct [OF ok] i by (metis less_trans nat_neq_iff)
    from set_contradiction_status_first [OF i refl this, of status res]
    show ?thesis by (simp add: update_contradiction_status_def)
  qed
  moreover have "update_contradiction_status cid status res s = (False, s)"
    if "cid \<notin> contra_ident ` set (contradictions s)"
    using that by (simp add: update_contradiction_status_def set_contradiction_status_absent)
  ultimately show ?thesis by blast
qed


text \<open>The amended claim C7 at the scenario of the specification: one contradiction is
  recorded and then resolved with a text; an unknown id changes nothing.\<close>

theorem update_contradiction_status_contract_witness:
  "(0::nat) < length (contradictions (run_contra_ops [Add_contradiction [''k1'', ''k2''] ''conflict''] (new_state ''1'' ''T''))) \<and>
   ''contra_9'' \<notin> contra_ident ` set (contradictions (run_contra_ops [Add_contradiction [''k1'', ''k2''] ''conflict''] (new_state ''1'' ''T''))) \<and>
   update_contradiction_status ''contra_1'' ''resolved'' (Some ''k1 is newer'')
       (run_contra_ops [Add_contradiction [''k1'', ''k2''] ''conflict''] (new_state ''1'' ''T''))
     = (True,
        (new_state ''1'' ''T'')
          \<lparr>contradictions :=
             [\<lparr>contra_ident = ''contra_1'', contra_description = ''conflict'',
               conflicting_knowledge_ids = [''k1'', ''k2''],
               resolution_attempt_description = Some ''k1 is newer'',
               contra_status = ''resolved''\<rparr>]\<rparr>) \<and>
   update_contradiction_status ''contra_9'' ''resolved'' (Some ''k1 is newer'')
       (run_contra_ops [Add_contradiction [''k1'', ''k2''] ''conflict''] (new_state ''1'' ''T''))
     = (False, run_contra_ops [Add_contradiction [''k1'', ''k2''] ''conflict''] (new_state ''1'' ''T''))"
  using update_contradiction_status_contract
    [where i = 0 and ops = "[Add_contradiction [''k1'', ''k2''] ''conflict'']" and tid = "''1''"
       and descr = "''T''" and status = "''resolved''" and res = "Some ''k1 is newer''"
       and cid = "''contra_9''"
       and s = "run_contra_ops [Add_contradiction [''k1'', ''k2''] ''conflict''] (new_state ''1'' ''T'')"]
  by (simp add: run_contra_ops_def add_contradiction_def new_state_def str_of_nat_digit
      digit_char_def Let_def)

text \<open>Claim C7 as stated fails for an empty resolution text: the status is overwritten,
  the text recorded by the earlier call stays.\<close>

theorem update_contradiction_status_empty_text_counterexample:
  "resolution_attempt_description
     (contradictions
        (snd (update_contradiction_status ''contra_1'' ''resolved'' (Some [])
           (snd (update_contradiction_status ''contra_1'' ''resolving'' (Some ''k1 is newer'')
              (snd (add_contradiction [''k1'', ''k2''] ''conflict'' (new_state ''1'' ''T''))))))) ! 0)
     = Some ''k1 is newer'' \<and>
   contra_status
     (contradictions
        (snd (update_contradiction_status ''contra_1'' ''resolved'' (Some [])
           (snd (update_contradiction_status ''contra_1'' ''resolving'' (Some ''k1 is newer'')
              (snd (add_contradiction [''k1'', ''k2''] ''conflict'' (new_state ''1'' ''T''))))))) ! 0)
     = ''resolved''"
  by (simp add: update_contradiction_status_def add_contradiction_def new_state_def
      str_of_nat_digit digit_char_def Let_def)

section \<open>Properties of the goal progress\<close>

lemma foldl_count_status:
  "foldl count_status stats gs k =
     (if k \<in> goal_status ` set gs
      then Some ((case stats k of None \<Rightarrow> 0 | Some c \<Rightarrow> c) + count_list (map goal_status gs) k)
      else stats k)"
proof (induction gs arbitrary: stats)
  case Nil
  then show ?case by simp
next
  case (Cons g gs)
  show ?case
    by (simp add: Cons.IH) (auto simp: count_status_def split: option.splits)
qed

lemma get_goal_progress_key:
  "get_goal_progress s k =
     (if k = ''total''
      then Some (length (decomposed_goals s) + count_list (map goal_status (decomposed_goals s)) k)
      else if k \<in> {''completed'', ''in_progress'', ''pending''} \<union> goal_status ` set (decomposed_goals s)
      then Some (count_list (map goal_status (decomposed_goals s)) k)
      else None)"
  by (auto simp: get_goal_progress_def foldl_count_status initial_stats_def count_list_0_iff)

lemma dom_get_goal_progress:
  "dom (get_goal_progress s) =
     {''total'', ''completed'', ''in_progress'', ''pending''} \<union> goal_status ` set (decomposed_goals s)"
  by (auto simp: dom_def get_goal_progress_key split: if_splits)

text \<open>
  Claim C5, as amended. After any sequence of \<^verbatim>\<open>add_goal\<close> and
  \<^verbatim>\<open>update_goal_status\<close> calls that leaves no goal with the status \<^verbatim>\<open>"total"\<close>, the
  dictionary of \<^verbatim>\<open>get_goal_progress\<close> holds the number of goals under \<^verbatim>\<open>"total"\<close>;
  its other keys are the three seeded statuses and the statuses the goals hold now, each
  with the number of goals holding it (zero for a seeded status no goal holds); and these
  counts sum to the number of goals.
\<close>

theorem get_goal_progress_sums_to_total:
  assumes "''total'' \<notin> goal_status ` set (decomposed_goals (run_goal_ops ops (new_state tid descr)))"
  shows "get_goal_progress (run_goal_ops ops (new_state tid descr)) ''total''
           = Some (length (decomposed_goals (run_goal_ops ops (new_state tid descr)))) \<and>
         dom (get_goal_progress (run_goal_ops ops (new_state tid descr)))
           = {''total'', ''completed'', ''in_progress'', ''pending''}
               \<union> goal_status ` set (decomposed_goals (run_goal_ops ops (new_state tid descr))) \<and>
         (k \<noteq> ''total'' \<and>
          k \<in> {''completed'', ''in_progress'', ''pending''}
                \<union> goal_status ` set (decomposed_goals (run_goal_ops ops (new_state tid descr))) \<longrightarrow>
            get_goal_progress (run_goal_ops ops (new_state tid descr)) k
              = Some (count_list (map goal_status (decomposed_goals (run_goal_ops ops (new_state tid descr)))) k)) \<and>
         (\<Sum>k \<in> dom (get_goal_progress (run_goal_ops ops (new_state tid descr))) - {''total''}.
             the (get_goal_progress (run_goal_ops ops (new_state tid descr)) k))
           = length (decomposed_goals (run_goal_ops ops (new_state tid descr)))"
proof -
  let ?s = "run_goal_ops ops (new_state tid descr)"
  let ?sts = "map goal_status (decomposed_goals ?s)"
  let ?K = "dom (get_goal_progress ?s) - {''total''}"
  from assms have nt: "count_list ?sts ''total'' = 0" by (simp add: count_list_0_iff)
  then have t: "get_goal_progress ?s ''total'' = Some (length (decomposed_goals ?s))"
    by (simp add: get_goal_progress_key)
  have K: "?K = {''completed'', ''in_progress'', ''pending''} \<union> set ?sts"
    using assms by (auto simp: dom_get_goal_progress)
  have "the (get_goal_progress ?s k) = count_list ?sts k" if "k \<in> ?K" for k
  proof -
    from that have "k \<noteq> ''total''"
      and "k \<in> {''completed'', ''in_progress'', ''pending''} \<union> goal_status ` set (decomposed_goals ?s)"
      by (auto simp: dom_get_goal_progress)
    then show ?thesis by (simp add: get_goal_progress_key)
  qed
  then have "(\<Sum>k\<in>?K. the (get_goal_progress ?s k)) = (\<Sum>k\<in>?K. count_list ?sts k)"
    by (intro sum.cong refl)
  also have "\<dots> = length ?sts"
    by (rule sum_count_set) (auto simp: K)
  finally show ?thesis using t by (simp add: dom_get_goal_progress get_goal_progress_key)
qed


text \<open>The amended claim C5 at two goals, one of them moved to a status outside the seeded
  three.\<close>

theorem get_goal_progress_sums_to_total_witness:
  "''total'' \<notin> goal_status ` set (decomposed_goals (run_goal_ops
      [Add_goal ''t1'' ''A'' ''pending'', Add_goal ''t2'' ''B'' ''pending'',
       Update_goal_status ''t3'' ''goal_2'' ''blocked''] (new_state ''1'' ''T''))) \<and>
   get_goal_progress (run_goal_ops
      [Add_goal ''t1'' ''A'' ''pending'', Add_goal ''t2'' ''B'' ''pending'',
       Update_goal_status ''t3'' ''goal_2'' ''blocked''] (new_state ''1'' ''T'')) ''total'' = Some 2 \<and>
   get_goal_progress (run_goal_ops
      [Add_goal ''t1'' ''A'' ''pending'', Add_goal ''t2'' ''B'' ''pending'',
       Update_goal_status ''t3'' ''goal_2'' ''blocked''] (new_state ''1'' ''T'')) ''blocked'' = Some 1 \<and>
   (\<Sum>k \<in> dom (get_goal_progress (run_goal_ops
      [Add_goal ''t1'' ''A'' ''pending'', Add_goal ''t2'' ''B'' ''pending'',
       Update_goal_status ''t3'' ''goal_2'' ''blocked''] (new_state ''1'' ''T''))) - {''total''}.
      the (get_goal_progress (run_goal_ops
      [Add_goal ''t1'' ''A'' ''pending'', Add_goal ''t2'' ''B'' ''pending'',
       Update_goal_status ''t3'' ''goal_2'' ''blocked''] (new_state ''1'' ''T'')) k)) = 2"
proof -
  have goals: "map goal_status (decomposed_goals (run_goal_ops
      [Add_goal ''t1'' ''A'' ''pending'', Add_goal ''t2'' ''B'' ''pending'',
       Update_goal_status ''t3'' ''goal_2'' ''blocked''] (new_state ''1'' ''T'')))
     = [''pending'', ''blocked'']"
    by (simp add: run_goal_ops_def add_goal_def update_goal_status_def new_state_def
        str_of_nat_digit digit_char_def Let_def)
  then have len: "length (decomposed_goals (run_goal_ops
      [Add_goal ''t1'' ''A'' ''pending'', Add_goal ''t2'' ''B'' ''pending'',
       Update_goal_status ''t3'' ''goal_2'' ''blocked''] (new_state ''1'' ''T''))) = 2"
    by (metis length_map length_Cons list.size(3) numeral_2_eq_2)
  from goals have nt: "''total'' \<notin> goal_status ` set (decomposed_goals (run_goal_ops
      [Add_goal ''t1'' ''A'' ''pending'', Add_goal ''t2'' ''B'' ''pending'',
       Update_goal_status ''t3'' ''goal_2'' ''blocked''] (new_state ''1'' ''T'')))"
    by (simp flip: set_map)
  from goals have b: "''blocked'' \<in> goal_status ` set (decomposed_goals (run_goal_ops
      [Add_goal ''t1'' ''A'' ''pending'', Add_goal ''t2'' ''B'' ''pending'',
       Update_goal_status ''t3'' ''goal_2'' ''blocked''] (new_state ''1'' ''T'')))"
    by (simp flip: set_map)
  note progress = get_goal_progress_sums_to_total [OF nt, of "''blocked''"]
  from progress len have c1: "get_goal_progress (run_goal_ops
      [Add_goal ''t1'' ''A'' ''pending'', Add_goal ''t2'' ''B'' ''pending'',
       Update_goal_status ''t3'' ''goal_2'' ''blocked''] (new_state ''1'' ''T'')) ''total'' = Some 2"
    by simp
  from progress b goals have c2: "get_goal_progress (run_goal_ops
      [Add_goal ''t1'' ''A'' ''pending'', Add_goal ''t2'' ''B'' ''pending'',
       Update_goal_status ''t3'' ''goal_2'' ''blocked''] (new_state ''1'' ''T'')) ''blocked'' = Some 1"
    by simp
  have c3: "(\<Sum>k \<in> dom (get_goal_progress (run_goal_ops
      [Add_goal ''t1'' ''A'' ''pending'', Add_goal ''t2'' ''B'' ''pending'',
       Update_goal_status ''t3'' ''goal_2'' ''blocked''] (new_state ''1'' ''T''))) - {''total''}.
      the (get_goal_progress (run_goal_ops
      [Add_goal ''t1'' ''A'' ''pending'', Add_goal ''t2'' ''B'' ''pending'',
       Update_goal_status ''t3'' ''goal_2'' ''blocked''] (new_state ''1'' ''T'')) k)) = 2"
    by (rule progress [THEN conjunct2, THEN conjunct2, THEN conjunct2, unfolded len])
  from nt c1 c2 c3 show ?thesis by (intro conjI)
qed

text \<open>Claim C5 as stated fails for a status that was assigned and then overwritten: it is
  no key of the dictionary, which is computed from the statuses the goals hold now.\<close>

theorem get_goal_progress_overwritten_status_counterexample:
  "get_goal_progress (run_goal_ops
      [Add_goal ''t1'' ''A'' ''pending'', Update_goal_status ''t2'' ''goal_1'' ''blocked'',
       Update_goal_status ''t3'' ''goal_1'' ''completed''] (new_state ''1'' ''T'')) ''blocked'' = None"
  by (simp add: get_goal_progress_def initial_stats_def count_status_def run_goal_ops_def
      add_goal_def update_goal_status_def new_state_def str_of_nat_digit digit_char_def Let_def)

text \<open>A goal whose status is the text \<^verbatim>\<open>"total"\<close> is counted under the key that holds
  the number of goals: with one goal the dictionary then reports a total of two. The
  amended claim C5 says nothing about this case.\<close>

lemma get_goal_progress_status_named_total:
  "length (decomposed_goals (run_goal_ops
      [Add_goal ''t1'' ''A'' ''pending'', Update_goal_status ''t2'' ''goal_1'' ''total'']
      (new_state ''1'' ''T''))) = 1 \<and>
   get_goal_progress (run_goal_ops
      [Add_goal ''t1'' ''A'' ''pending'', Update_goal_status ''t2'' ''goal_1'' ''total'']
      (new_state ''1'' ''T'')) ''total'' = Some 2 \<and>
   get_goal_progress (run_goal_ops
      [Add_goal ''t1'' ''A'' ''pending'', Update_goal_status ''t2'' ''goal_1'' ''total'']
      (new_state ''1'' ''T'')) ''pending'' = Some 0"
  by (simp add: get_goal_progress_def initial_stats_def count_status_def run_goal_ops_def
      add_goal_def update_goal_status_def new_state_def str_of_nat_digit digit_char_def Let_def)

section \<open>Properties of retrieval by recency and of the freshness report\<close>

lemma recent_enough_has_key:
  "recent_enough parse_date cutoff item \<Longrightarrow> \<not> isl (recency_key parse_date item)"
  by (auto simp: recent_enough_def recency_key_def split: option.splits if_splits)

lemma sorted_newest_first_filter:
  "sorted_newest_first parse_date (filter (recent_enough parse_date cutoff) items) =
     Inr (sort_key (\<lambda>item. - key_value (recency_key parse_date item))
            (filter (recent_enough parse_date cutoff) items))"
  by (auto simp: sorted_newest_first_def list_ex_iff dest: recent_enough_has_key)

lemma get_knowledge_by_recency_returns:
  "cutoff_date now days = Inr cutoff \<Longrightarrow>
   get_knowledge_by_recency parse_date now days s =
     Inr (sort_key (\<lambda>item. - key_value (recency_key parse_date item))
            (filter (recent_enough parse_date cutoff) (knowledge_base s)))"
  by (simp add: get_knowledge_by_recency_def sorted_newest_first_filter)

lemma recent_enough_mono:
  "c2 \<le> c1 \<Longrightarrow> recent_enough parse_date c1 item \<Longrightarrow> recent_enough parse_date c2 item"
  by (auto simp: recent_enough_def split: option.splits if_splits)

lemma cutoff_date_mono:
  assumes "0 \<le> k" "cutoff_date now days = Inr c1" "cutoff_date now (days + k) = Inr c2"
  shows "c2 \<le> c1"
proof -
  from assms(2) have c1: "c1 = now - days * microseconds_per_day"
    by (auto simp: cutoff_date_def split: if_splits)
  from assms(3) have c2: "c2 = now - (days + k) * microseconds_per_day"
    by (auto simp: cutoff_date_def split: if_splits)
  have "0 \<le> k * microseconds_per_day"
    using assms(1) by (simp add: microseconds_per_day_def)
  then show ?thesis by (simp add: c1 c2 algebra_simps)
qed

text \<open>An item whose publish date is missing, empty or not parsable is in no result of
  \<^verbatim>\<open>get_knowledge_by_recency\<close>.\<close>

lemma undated_never_recent:
  assumes "publish_date item = None \<or> publish_date item = Some [] \<or>
           (\<exists>p. publish_date item = Some p \<and> parse_date p = None)"
    and "get_knowledge_by_recency parse_date now days s = Inr xs"
  shows "item \<notin> set xs"
proof -
  from assms(2) obtain cutoff where c: "cutoff_date now days = Inr cutoff"
    by (cases "cutoff_date now days") (auto simp: get_knowledge_by_recency_def)
  from assms(1) have "\<not> recent_enough parse_date cutoff item"
    by (auto simp: recent_enough_def)
  with assms(2) show ?thesis
    by (auto simp: get_knowledge_by_recency_returns [OF c])
qed

text \<open>
  Claim C6, as amended. For every knowledge base, every day count \<open>D\<close> and every
  \<open>k \<ge> 0\<close> for which the cutoff dates of both windows are representable, the calls
  for \<open>D\<close> and for \<open>D + k\<close> at the same clock reading both return, and each item
  of the first result is an item of the second.
\<close>

theorem recency_window_widening:
  assumes "0 \<le> k" and "cutoff_date now days = Inr c1" and "cutoff_date now (days + k) = Inr c2"
  shows "\<exists>xs ys. get_knowledge_by_recency parse_date now days s = Inr xs \<and>
           get_knowledge_by_recency parse_date now (days + k) s = Inr ys \<and>
           set xs \<subseteq> set ys"
proof -
  have "c2 \<le> c1" using assms by (rule cutoff_date_mono)
  then have "set (filter (recent_enough parse_date c1) (knowledge_base s))
      \<subseteq> set (filter (recent_enough parse_date c2) (knowledge_base s))"
    by (auto intro: recent_enough_mono)
  then show ?thesis
    by (simp add: get_knowledge_by_recency_returns [OF assms(2)]
        get_knowledge_by_recency_returns [OF assms(3)])
qed

text \<open>The amended claim C6 at the windows of 30 and 40 days.\<close>

theorem recency_window_widening_witness:
  "(0::int) \<le> 10 \<and>
   cutoff_date example_now 30 = Inr (example_now - 30 * microseconds_per_day) \<and>
   cutoff_date example_now (30 + 10) = Inr (example_now - 40 * microseconds_per_day) \<and>
   (\<exists>xs ys.
      get_knowledge_by_recency example_parse example_now 30
          ((new_state ''1'' ''T'')\<lparr>knowledge_base := [undated_item, dated_item]\<rparr>) = Inr xs \<and>
      get_knowledge_by_recency example_parse example_now (30 + 10)
          ((new_state ''1'' ''T'')\<lparr>knowledge_base := [undated_item, dated_item]\<rparr>) = Inr ys \<and>
      set xs \<subseteq> set ys)"
proof -
  have k: "(0::int) \<le> 10" by simp
  have c1: "cutoff_date example_now 30 = Inr (example_now - 30 * microseconds_per_day)"
    by (simp add: cutoff_date_def valid_datetime_def example_now_def microseconds_per_day_def)
  have c2: "cutoff_date example_now (30 + 10) = Inr (example_now - 40 * microseconds_per_day)"
    by (simp add: cutoff_date_def valid_datetime_def example_now_def microseconds_per_day_def)
  from recency_window_widening [OF k c1 c2, of example_parse
      "(new_state ''1'' ''T'')\<lparr>knowledge_base := [undated_item, dated_item]\<rparr>"] k c1 c2
  show ?thesis by (intro conjI)
qed

text \<open>Claim C6 as stated fails when the wider window reaches before
  \<^verbatim>\<open>datetime.min\<close>: the call for 30 days returns the item, the call for 30 + 10000000
  days raises OverflowError and has no result.\<close>

theorem recency_window_overflow_counterexample:
  "get_knowledge_by_recency example_parse example_now 30
       ((new_state ''1'' ''T'')\<lparr>knowledge_base := [dated_item]\<rparr>) = Inr [dated_item] \<and>
   (0::int) \<le> 10000000 \<and>
   get_knowledge_by_recency example_parse example_now (30 + 10000000)
       ((new_state ''1'' ''T'')\<lparr>knowledge_base := [dated_item]\<rparr>) = Inl OverflowError"
  by (simp add: get_knowledge_by_recency_def cutoff_date_def valid_datetime_def example_now_def
      microseconds_per_day_def sorted_newest_first_def recent_enough_def recency_key_def
      dated_item_def example_parse_def new_state_def)

text \<open>
  Claim C2 at a knowledge base with one undated and one dated item. The undated item is
  not in the result of \<^verbatim>\<open>get_knowledge_by_recency\<close>; the freshness report is computed
  from that result, so it finds one item, counts none in the oldest bucket and lists the
  dated item only. With the undated item alone the report is the message that nothing was
  found.
\<close>

theorem freshness_report_omits_undated:
  "get_knowledge_by_recency example_parse example_now 365
       ((new_state ''1'' ''T'')\<lparr>knowledge_base := [undated_item, dated_item]\<rparr>) = Inr [dated_item] \<and>
   (case freshness_run example_parse example_age example_now example_now 365
           ((new_state ''1'' ''T'')\<lparr>knowledge_base := [undated_item, dated_item]\<rparr>) of
      Inr (Freshness_report n buckets listing) \<Rightarrow>
        n = 1 \<and> buckets Over_1_year = 0 \<and> buckets Within_1_month = 1 \<and> listing = [dated_item]
    | _ \<Rightarrow> False) \<and>
   freshness_run example_parse example_age example_now example_now 365
       ((new_state ''1'' ''T'')\<lparr>knowledge_base := [undated_item]\<rparr>) = Inr No_knowledge_found"
  by (simp add: freshness_run_def get_knowledge_by_recency_def cutoff_date_def valid_datetime_def
      example_now_def microseconds_per_day_def sorted_newest_first_def recent_enough_def
      recency_key_def dated_item_def undated_item_def example_parse_def example_age_def
      new_state_def age_buckets_def count_bucket_def item_bucket_def bucket_of_age_def)

end
